theory Spec2Isabelle
  imports Main "HOL-Library.Word"
begin

unbundle bit_operations_syntax

section \<open>coopurl: an url shortener over a key-value store\<close>

text \<open>
  A shallow embedding of \<^verbatim>\<open>coopurl.go\<close>. The handler is a record that every
  operation takes and returns; the clock is read once per operation and passed in
  as \<open>now\<close> (nanoseconds since the Unix epoch); an error return is the \<open>Inl\<close>
  branch of a sum (Go's pair \<^verbatim>\<open>("", err)\<close>); a runtime panic is an error value
  of its own, so that "does not panic" is a statement about results. Logging has no effect on any result and is
  left out, and so are the mutex and the logger field of the handler.

  Names are the source's, but for \<open>ident\<close> (the source's \<open>id\<close>), the field
  \<open>length_r\<close> of a request (\<open>length\<close>) and \<open>h_open\<close> (the method \<open>open\<close>).
  The URL and the handler both have a field \<open>Scheme\<close>, written \<open>URL.Scheme\<close> and
  \<open>Handler.Scheme\<close>.
\<close>

subsection \<open>Errors\<close>

datatype error =
    ParseError string
  | StorageError string
  | ErrKeyNotFound
  | ErrEmptyKey
  | SliceBoundsPanic
  | NilDerefPanic

definition is_panic :: "error \<Rightarrow> bool" where
  "is_panic e = (e = SliceBoundsPanic \<or> e = NilDerefPanic)"

subsection \<open>Data\<close>

text \<open>
  \<^verbatim>\<open>net/url.URL\<close>: the string fields this development reads or shows. The
  program itself touches \<open>Scheme\<close> only.
\<close>

record URL =
  Scheme :: string
  Opaque :: string
  Host :: string
  Path :: string
  RawQuery :: string
  Fragment :: string

text \<open>
  A store entry: \<open>ExpiresAt\<close> is a \<^verbatim>\<open>uint64\<close>, in Unix seconds, and \<open>0\<close> for an
  entry that never expires. The store maps a key to its entry.
\<close>

record Entry =
  Key :: string
  Value :: string
  ExpiresAt :: "64 word"

type_synonym DB = "string \<rightharpoonup> Entry"

record Handler =
  db :: "DB option"
  path :: string
  TTL :: int
  Length :: int
  Scheme :: string

record req =
  ttl :: int
  length_r :: int

type_synonym ReqOptions = "req \<Rightarrow> req"

type_synonym Options = "Handler \<Rightarrow> Handler"

subsection \<open>The libraries the program calls\<close>

text \<open>
  The standard library and the store are not part of the repository. What the
  program calls is a parameter of every operation:
  \<^item> \<open>url_Parse\<close> and \<open>URL_String\<close>: \<^verbatim>\<open>url.Parse\<close> and \<^verbatim>\<open>(*URL).String\<close>;
  \<^item> \<open>Sum256\<close>: \<^verbatim>\<open>sha256.Sum256\<close>, a \<^verbatim>\<open>[32]byte\<close>;
  \<^item> \<open>Time_String\<close>: the rendering of \<^verbatim>\<open>time.Now()\<close> under \<^verbatim>\<open>%s\<close>;
  \<^item> \<open>badger_Open\<close>: \<^verbatim>\<open>badger.Open\<close> on a path, the store it finds there or the
    fault;
  \<^item> \<open>commit_fault\<close>: whether the store refuses to commit an update (old and new
    contents), and with which message;
  \<^item> \<open>Redirect_Location\<close>: the \<^verbatim>\<open>Location\<close> value \<^verbatim>\<open>http.Redirect\<close> computes from
    the request path and the target.
\<close>

record env =
  url_Parse :: "string \<Rightarrow> string + URL"
  URL_String :: "URL \<Rightarrow> string"
  Sum256 :: "string \<Rightarrow> 8 word list"
  Time_String :: "int \<Rightarrow> string"
  badger_Open :: "string \<Rightarrow> string + DB"
  commit_fault :: "DB \<Rightarrow> DB \<Rightarrow> string option"
  Redirect_Location :: "string \<Rightarrow> string \<Rightarrow> string"

definition digest_ok :: "env \<Rightarrow> bool" where
  "digest_ok env = (\<forall>s. length (Sum256 env s) = 32)"

subsection \<open>The store's transactions\<close>

text \<open>
  The contract of the store as the program uses it. The store refuses the empty
  key, on a read and on a write, with \<open>ErrEmptyKey\<close>. A read finds an entry that
  is present and not expired, and answers \<open>ErrKeyNotFound\<close> otherwise. A write
  replaces the entry under its key. An update is atomic, so a refused commit
  leaves the contents as they were.

  The clock \<open>now\<close> counts nanoseconds since the Unix epoch, and a duration is a
  number of nanoseconds. The store keeps an expiry as \<^verbatim>\<open>uint64\<close> whole Unix
  seconds, \<^verbatim>\<open>uint64(time.Now().Add(dur).Unix())\<close>, where \<open>0\<close> stands for "never
  expires": \<open>Unix\<close> rounds down, and the conversion wraps a negative number of
  seconds. An entry has expired when its expiry is not \<open>0\<close> and is at most the
  current second.
\<close>

definition Unix :: "int \<Rightarrow> int" where
  "Unix t = t div 1000000000"

definition isExpired :: "int \<Rightarrow> Entry \<Rightarrow> bool" where
  "isExpired now e = (ExpiresAt e \<noteq> 0 \<and> ExpiresAt e \<le> word_of_int (Unix now))"

definition txn_Get :: "DB \<Rightarrow> int \<Rightarrow> string \<Rightarrow> error + Entry" where
  "txn_Get d now k =
     (if k = '''' then Inl ErrEmptyKey
      else case d k of
        None \<Rightarrow> Inl ErrKeyNotFound
      | Some e \<Rightarrow> if isExpired now e then Inl ErrKeyNotFound else Inr e)"

definition ValueCopy :: "Entry \<Rightarrow> error + string" where
  "ValueCopy e = Inr (Value e)"

definition NewEntry :: "string \<Rightarrow> string \<Rightarrow> Entry" where
  "NewEntry k v = \<lparr>Key = k, Value = v, ExpiresAt = 0\<rparr>"

definition Entry_WithTTL :: "int \<Rightarrow> int \<Rightarrow> Entry \<Rightarrow> Entry" where
  "Entry_WithTTL now dur e = e\<lparr>ExpiresAt := word_of_int (Unix (now + dur))\<rparr>"

definition txn_SetEntry :: "DB \<Rightarrow> Entry \<Rightarrow> error + DB" where
  "txn_SetEntry d e = (if Key e = '''' then Inl ErrEmptyKey else Inr (d(Key e \<mapsto> e)))"

definition txn_Set :: "DB \<Rightarrow> string \<Rightarrow> string \<Rightarrow> error + DB" where
  "txn_Set d k v = txn_SetEntry d (NewEntry k v)"

definition db_Update :: "env \<Rightarrow> DB \<Rightarrow> (DB \<Rightarrow> error + DB) \<Rightarrow> DB \<times> error option" where
  "db_Update env d body =
     (case body d of
        Inl e \<Rightarrow> (d, Some e)
      | Inr d' \<Rightarrow>
          (case commit_fault env d d' of
             Some msg \<Rightarrow> (d, Some (StorageError msg))
           | None \<Rightarrow> (d', None)))"

definition db_View :: "DB \<Rightarrow> (DB \<Rightarrow> error + string) \<Rightarrow> error + string" where
  "db_View d body = body d"

subsection \<open>Configuration\<close>

definition DefaultDbPath :: string where
  "DefaultDbPath = ''/tmp/badger''"

definition DefaultLength :: int where
  "DefaultLength = 8"

definition WithDbPath :: "string \<Rightarrow> Options" where
  "WithDbPath p = (\<lambda>h. h\<lparr>path := p\<rparr>)"

definition WithDefaultTTL :: "int \<Rightarrow> Options" where
  "WithDefaultTTL t = (\<lambda>h. h\<lparr>TTL := t\<rparr>)"

definition WithDefaultLength :: "int \<Rightarrow> Options" where
  "WithDefaultLength n = (\<lambda>h. h\<lparr>Length := n\<rparr>)"

definition WithTTL :: "int \<Rightarrow> ReqOptions" where
  "WithTTL t = (\<lambda>r. r\<lparr>ttl := t\<rparr>)"

definition WithLength :: "int \<Rightarrow> ReqOptions" where
  "WithLength n = (\<lambda>r. r\<lparr>length_r := n\<rparr>)"

definition zero_Handler :: Handler where
  "zero_Handler = \<lparr>db = None, path = '''', TTL = 0, Length = 0, Handler.Scheme = ''''\<rparr>"

definition zero_req :: req where
  "zero_req = \<lparr>ttl = 0, length_r = 0\<rparr>"

definition getPath :: "Handler \<Rightarrow> string" where
  "getPath h = (if path h = '''' then DefaultDbPath else path h)"

definition getLength :: "Handler \<Rightarrow> req \<Rightarrow> int" where
  "getLength h r =
     (if length_r r > 0 then length_r r
      else if Length h > 0 then Length h
      else DefaultLength)"

definition h_open :: "env \<Rightarrow> Handler \<Rightarrow> Handler \<times> error option" where
  "h_open env h =
     (case badger_Open env (getPath h) of
        Inl msg \<Rightarrow> (h\<lparr>db := None\<rparr>, Some (StorageError msg))
      | Inr d \<Rightarrow> (h\<lparr>db := Some d\<rparr>, None))"

definition init :: "env \<Rightarrow> Handler \<Rightarrow> Handler \<times> error option" where
  "init env h = (if db h = None then h_open env h else (h, None))"

definition New :: "env \<Rightarrow> Options list \<Rightarrow> error + Handler" where
  "New env opts =
     (case h_open env (foldl (\<lambda>h opt. opt h) zero_Handler opts) of
        (h, Some e) \<Rightarrow> Inl e
      | (h, None) \<Rightarrow> Inr h)"

subsection \<open>Identifiers\<close>

text \<open>
  \<^verbatim>\<open>fmt.Sprintf("%x", b)\<close> on a byte array writes, for every byte \<open>c\<close>, the
  digits \<open>c >> 4\<close> and \<open>c & 0xF\<close> of \<^verbatim>\<open>"0123456789abcdef"\<close>. The slice
  \<^verbatim>\<open>sha[:n]\<close> panics unless \<open>0 \<le> n \<le> len(sha)\<close>.
\<close>

definition ldigits :: string where
  "ldigits = ''0123456789abcdef''"

definition fmt_x_byte :: "8 word \<Rightarrow> string" where
  "fmt_x_byte c = [ldigits ! unat (drop_bit 4 c), ldigits ! unat (c AND 0xF)]"

definition Sprintf_x :: "8 word list \<Rightarrow> string" where
  "Sprintf_x bs = concat (map fmt_x_byte bs)"

definition slice_to :: "string \<Rightarrow> int \<Rightarrow> error + string" where
  "slice_to s n =
     (if 0 \<le> n \<and> n \<le> int (length s) then Inr (take (nat n) s)
      else Inl SliceBoundsPanic)"

definition generateId :: "env \<Rightarrow> int \<Rightarrow> string \<Rightarrow> int \<Rightarrow> error + string" where
  "generateId env now url n =
     (let s = url @ ''-'' @ Time_String env now;
          sha = Sprintf_x (Sum256 env s)
      in if n \<ge> int (length sha) then Inr sha else slice_to sha n)"

subsection \<open>Get and Post\<close>

definition get :: "Handler \<Rightarrow> int \<Rightarrow> string \<Rightarrow> error + string" where
  "get h now ident =
     (case db h of
        None \<Rightarrow> Inl NilDerefPanic
      | Some d \<Rightarrow>
          db_View d (\<lambda>txn.
            case txn_Get txn now ident of
              Inl e \<Rightarrow> Inl e
            | Inr item \<Rightarrow>
                (case ValueCopy item of
                   Inl e \<Rightarrow> Inl e
                 | Inr b \<Rightarrow> Inr b)))"

definition Get :: "env \<Rightarrow> Handler \<Rightarrow> int \<Rightarrow> string \<Rightarrow> Handler \<times> (error + string)" where
  "Get env h now ident =
     (case init env h of
        (h1, Some e) \<Rightarrow> (h1, Inl e)
      | (h1, None) \<Rightarrow> (h1, get h1 now ident))"

definition post ::
  "env \<Rightarrow> Handler \<Rightarrow> int \<Rightarrow> string \<Rightarrow> ReqOptions list \<Rightarrow> Handler \<times> (error + string)" where
  "post env h now s opts =
     (case url_Parse env s of
        Inl msg \<Rightarrow> (h, Inl (ParseError msg))
      | Inr u0 \<Rightarrow>
          let u = (if URL.Scheme u0 = '''' then u0\<lparr>URL.Scheme := ''http''\<rparr> else u0);
              r = foldl (\<lambda>r opt. opt r) zero_req opts
          in case generateId env now (URL_String env u) (getLength h r) of
               Inl e \<Rightarrow> (h, Inl e)
             | Inr ident \<Rightarrow>
                 let ttl = (if req.ttl r = 0 then TTL h else req.ttl r)
                 in case db h of
                      None \<Rightarrow> (h, Inl NilDerefPanic)
                    | Some d \<Rightarrow>
                        (case db_Update env d (\<lambda>txn.
                                 if ttl \<noteq> 0
                                 then txn_SetEntry txn
                                        (Entry_WithTTL now ttl (NewEntry ident (URL_String env u)))
                                 else txn_Set txn ident (URL_String env u)) of
                           (d', Some e) \<Rightarrow> (h\<lparr>db := Some d'\<rparr>, Inl e)
                         | (d', None) \<Rightarrow> (h\<lparr>db := Some d'\<rparr>, Inr ident)))"

text \<open>
  \<^verbatim>\<open>Post\<close> takes the per-call options and calls \<^verbatim>\<open>h.post(url)\<close> without them.
\<close>

definition Post ::
  "env \<Rightarrow> Handler \<Rightarrow> int \<Rightarrow> string \<Rightarrow> ReqOptions list \<Rightarrow> Handler \<times> (error + string)" where
  "Post env h now url opts =
     (case init env h of
        (h1, Some e) \<Rightarrow> (h1, Inl e)
      | (h1, None) \<Rightarrow> post env h1 now url [])"

subsection \<open>The redirect handler\<close>

text \<open>
  A response writer keeps the header map the handler edits and, once
  \<^verbatim>\<open>WriteHeader\<close> has been called, the status with the headers as they were then:
  a second call changes nothing.
\<close>

record Request =
  Method :: string
  URL_Path :: string

record ResponseWriter =
  Header :: "string \<rightharpoonup> string"
  wrote :: "(nat \<times> (string \<rightharpoonup> string)) option"

definition StatusMovedPermanently :: nat where
  "StatusMovedPermanently = 301"

definition StatusInternalServerError :: nat where
  "StatusInternalServerError = 500"

definition new_ResponseWriter :: ResponseWriter where
  "new_ResponseWriter = \<lparr>Header = Map.empty, wrote = None\<rparr>"

definition WriteHeader :: "ResponseWriter \<Rightarrow> nat \<Rightarrow> ResponseWriter" where
  "WriteHeader w code = (if wrote w = None then w\<lparr>wrote := Some (code, Header w)\<rparr> else w)"

definition http_Redirect ::
  "env \<Rightarrow> ResponseWriter \<Rightarrow> Request \<Rightarrow> string \<Rightarrow> nat \<Rightarrow> ResponseWriter" where
  "http_Redirect env w r url code =
     WriteHeader
       (w\<lparr>Header := (Header w)(''Location'' \<mapsto> Redirect_Location env (URL_Path r) url)\<rparr>)
       code"

definition redirect ::
  "env \<Rightarrow> ResponseWriter \<Rightarrow> Request \<Rightarrow> string \<Rightarrow> ResponseWriter \<times> error option" where
  "redirect env w r s =
     (case url_Parse env s of
        Inl msg \<Rightarrow> (w, Some (ParseError msg))
      | Inr u \<Rightarrow> (http_Redirect env w r (URL_String env u) StatusMovedPermanently, None))"

text \<open>
  \<^verbatim>\<open>path.Split\<close> cuts right after the last slash; \<open>LastIndexByte\<close> is \<open>-1\<close>
  when there is none.
\<close>

fun LastIndexByte :: "string \<Rightarrow> char \<Rightarrow> int" where
  "LastIndexByte [] c = - 1"
| "LastIndexByte (x # xs) c =
     (let j = LastIndexByte xs c
      in if 0 \<le> j then j + 1 else if x = c then 0 else - 1)"

definition path_Split :: "string \<Rightarrow> string \<times> string" where
  "path_Split p =
     (let i = LastIndexByte p (CHR ''/'')
      in (take (nat (i + 1)) p, drop (nat (i + 1)) p))"

text \<open>
  The first check of \<^verbatim>\<open>ServeHTTP\<close> writes the status and goes on (there is no
  \<^verbatim>\<open>return\<close> in it). A panic below unwinds the handler: the \<open>Inl\<close> outcome.
\<close>

definition ServeHTTP ::
  "env \<Rightarrow> Handler \<Rightarrow> int \<Rightarrow> ResponseWriter \<Rightarrow> Request \<Rightarrow> Handler \<times> (error + ResponseWriter)" where
  "ServeHTTP env h now w r =
     (case init env h of
        (h1, err) \<Rightarrow>
          let w1 = (if err \<noteq> None then WriteHeader w StatusInternalServerError else w);
              ident = snd (path_Split (URL_Path r))
          in case Get env h1 now ident of
               (h2, Inl e) \<Rightarrow>
                 if is_panic e then (h2, Inl e)
                 else (h2, Inr (WriteHeader w1 StatusInternalServerError))
             | (h2, Inr u) \<Rightarrow>
                 (case redirect env w1 r u of
                    (w2, Some e) \<Rightarrow> (h2, Inr (WriteHeader w2 StatusInternalServerError))
                  | (w2, None) \<Rightarrow> (h2, Inr w2)))"

subsection \<open>Sequences of calls\<close>

datatype call = CallPost string "ReqOptions list" | CallGet string

fun step :: "env \<Rightarrow> Handler \<Rightarrow> int \<Rightarrow> call \<Rightarrow> Handler \<times> (error + string)" where
  "step env h now (CallPost u opts) = Post env h now u opts"
| "step env h now (CallGet k) = Get env h now k"

fun run :: "env \<Rightarrow> Handler \<Rightarrow> (int \<times> call) list \<Rightarrow> Handler \<times> (error + string) list" where
  "run env h [] = (h, [])"
| "run env h ((now, c) # cs) =
     (case step env h now c of
        (h1, res) \<Rightarrow> (case run env h1 cs of (h2, rs) \<Rightarrow> (h2, res # rs)))"

subsection \<open>A sample of the libraries\<close>

text \<open>
  One instance of the libraries, for the examples below. Of \<^verbatim>\<open>net/url\<close> it holds
  the answers on the inputs the examples use: a host name without a scheme parses
  as a path, and is rendered after two slashes once it has a scheme; the scheme is
  lower-cased by the parser; a leading colon is refused. Every other input is
  outside the table. The digest is a stand-in of the right size (32 equal bytes,
  the length of the input), not SHA-256; the store opens empty and commits;
  the location of a redirect is its target.
\<close>

definition blank_URL :: URL where
  "blank_URL =
     \<lparr>URL.Scheme = '''', Opaque = '''', Host = '''', Path = '''', RawQuery = '''', Fragment = ''''\<rparr>"

definition neturl_Parse_tbl :: "string \<Rightarrow> string + URL" where
  "neturl_Parse_tbl s =
     (if s = ''example.com'' then Inr (blank_URL\<lparr>Path := ''example.com''\<rparr>)
      else if s = ''http://example.com''
        then Inr (blank_URL\<lparr>URL.Scheme := ''http'', Host := ''example.com''\<rparr>)
      else if s = ''HTTP://example.com''
        then Inr (blank_URL\<lparr>URL.Scheme := ''http'', Host := ''example.com''\<rparr>)
      else if s = '':foo'' then Inl ''missing protocol scheme''
      else Inl ''outside the table'')"

definition neturl_String_tbl :: "URL \<Rightarrow> string" where
  "neturl_String_tbl u =
     (if u = blank_URL\<lparr>URL.Scheme := ''http'', Path := ''example.com''\<rparr>
        then ''http://example.com''
      else if u = blank_URL\<lparr>URL.Scheme := ''http'', Host := ''example.com''\<rparr>
        then ''http://example.com''
      else '''')"

definition sample_env :: env where
  "sample_env =
     \<lparr>url_Parse = neturl_Parse_tbl,
      URL_String = neturl_String_tbl,
      Sum256 = (\<lambda>s. replicate 32 (of_nat (length s))),
      Time_String = (\<lambda>t. if t = 0 then ''1970-01-01 00:00:00 +0000 UTC'' else ''later''),
      badger_Open = (\<lambda>p. Inr Map.empty),
      commit_fault = (\<lambda>d d'. None),
      Redirect_Location = (\<lambda>p u. u)\<rparr>"

definition sample_id :: string where
  "sample_id = ''30303030''"

definition sample_db :: DB where
  "sample_db =
     [sample_id \<mapsto> \<lparr>Key = sample_id, Value = ''http://example.com'', ExpiresAt = 0\<rparr>]"

definition sample_h1 :: Handler where
  "sample_h1 = zero_Handler\<lparr>db := Some sample_db\<rparr>"

definition sample_entry2 :: Entry where
  "sample_entry2 = \<lparr>Key = sample_id, Value = ''http://example.com'', ExpiresAt = 2\<rparr>"

definition sample_db2 :: DB where
  "sample_db2 = [sample_id \<mapsto> sample_entry2]"

definition sample_h2 :: Handler where
  "sample_h2 = (WithDefaultTTL 2000000000 zero_Handler)\<lparr>db := Some sample_db2\<rparr>"

definition sample_request :: "string \<Rightarrow> Request" where
  "sample_request p = \<lparr>Method = ''GET'', URL_Path = p\<rparr>"

subsection \<open>The scheme-normalized form\<close>

text \<open>
  What \<^verbatim>\<open>post\<close> does to the parsed URL before it renders it: an empty scheme
  becomes \<open>http\<close>.
\<close>

definition norm_URL :: "URL \<Rightarrow> URL" where
  "norm_URL u = (if URL.Scheme u = '''' then u\<lparr>URL.Scheme := ''http''\<rparr> else u)"

section \<open>Basic facts\<close>

subsection \<open>Hexadecimal rendering\<close>

lemma nth_ldigits_mem: "i < 16 \<Longrightarrow> ldigits ! i \<in> set ldigits"
  by (rule nth_mem) (simp add: ldigits_def)

lemma hi_nibble_less: "unat (drop_bit 4 (c :: 8 word)) < 16"
proof -
  have "unat c < 256" using unsigned_less [of c, where ?'a = nat] by simp
  then have "unat c div 16 < 16" by arith
  then show ?thesis by (simp only: unat_drop_bit_eq) (simp add: drop_bit_eq_div)
qed

lemma lo_nibble_less: "unat ((c :: 8 word) AND 0xF) < 16"
proof -
  have "c AND 0xF \<le> 0xF" by (rule word_and_le1)
  then have "unat (c AND 0xF) \<le> unat (0xF :: 8 word)" by (simp add: word_le_nat_alt)
  then show ?thesis by simp
qed

lemma length_fmt_x_byte: "length (fmt_x_byte c) = 2"
  by (simp add: fmt_x_byte_def)

lemma set_fmt_x_byte: "set (fmt_x_byte c) \<subseteq> set ldigits"
  using nth_ldigits_mem [OF hi_nibble_less [of c]] nth_ldigits_mem [OF lo_nibble_less [of c]]
  by (simp add: fmt_x_byte_def)

lemma length_Sprintf_x: "length (Sprintf_x bs) = 2 * length bs"
  by (induction bs) (simp_all add: Sprintf_x_def length_fmt_x_byte)

lemma set_Sprintf_x: "set (Sprintf_x bs) \<subseteq> set ldigits"
  using set_fmt_x_byte by (auto simp: Sprintf_x_def)

lemma length_sha: "digest_ok env \<Longrightarrow> length (Sprintf_x (Sum256 env s)) = 64"
  by (simp add: digest_ok_def length_Sprintf_x)

subsection \<open>Length resolution and identifiers\<close>

lemma getLength_pos: "0 < getLength h r"
  by (simp add: getLength_def DefaultLength_def)

lemma getLength_zero_req: "getLength h zero_req = (if 0 < Length h then Length h else 8)"
  by (simp add: getLength_def zero_req_def DefaultLength_def)

lemma generateId_nonneg:
  "0 \<le> n \<Longrightarrow>
   generateId env now u n =
     Inr (take (nat n) (Sprintf_x (Sum256 env (u @ ''-'' @ Time_String env now))))"
  by (simp add: generateId_def Let_def slice_to_def)

subsection \<open>Opening the store\<close>

lemma init_open: "db h = Some d \<Longrightarrow> init env h = (h, None)"
  by (simp add: init_def)

lemma init_ok_db: "init env h = (h1, None) \<Longrightarrow> \<exists>d. db h1 = Some d"
  by (auto simp: init_def h_open_def split: if_splits sum.splits)

lemma init_error: "init env h = (h1, Some e) \<Longrightarrow> \<exists>m. e = StorageError m"
  by (auto simp: init_def h_open_def split: if_splits sum.splits)

lemma init_config:
  "init env h = (h1, err) \<Longrightarrow>
   TTL h1 = TTL h \<and> Length h1 = Length h \<and> path h1 = path h \<and>
   Handler.Scheme h1 = Handler.Scheme h"
  by (auto simp: init_def h_open_def split: if_splits sum.splits)

subsection \<open>What a successful post leaves in the store\<close>

lemma post_ok:
  assumes "post env h now s opts = (h', Inr i)"
  shows "\<exists>u d. url_Parse env s = Inr u \<and> db h = Some d \<and> i \<noteq> '''' \<and>
           generateId env now (URL_String env (norm_URL u))
             (getLength h (foldl (\<lambda>r opt. opt r) zero_req opts)) = Inr i \<and>
           h' = h\<lparr>db := Some (d(i \<mapsto>
                  \<lparr>Key = i, Value = URL_String env (norm_URL u),
                   ExpiresAt =
                     (let t = req.ttl (foldl (\<lambda>r opt. opt r) zero_req opts);
                          t' = (if t = 0 then TTL h else t)
                      in if t' = 0 then 0 else word_of_int (Unix (now + t')))\<rparr>))\<rparr>"
  using assms
  by (auto simp: post_def norm_URL_def Let_def db_Update_def txn_Set_def txn_SetEntry_def
        NewEntry_def Entry_WithTTL_def
      split: sum.splits option.splits if_splits prod.splits)

lemma Post_ok:
  assumes "Post env h now u opts = (h', Inr i)"
  shows "\<exists>h1. init env h = (h1, None) \<and> post env h1 now u [] = (h', Inr i)"
  using assms by (auto simp: Post_def split: prod.splits option.splits)

lemma Post_stored:
  assumes "Post env h now u opts = (h', Inr i)"
  shows "\<exists>p d. url_Parse env u = Inr p \<and> db h' = Some d \<and> i \<noteq> '''' \<and>
           d i = Some \<lparr>Key = i, Value = URL_String env (norm_URL p),
                        ExpiresAt = (if TTL h = 0 then 0
                                     else word_of_int (Unix (now + TTL h)))\<rparr>"
proof -
  from assms obtain h1 where h1: "init env h = (h1, None)"
    and p: "post env h1 now u [] = (h', Inr i)"
    using Post_ok by blast
  have "TTL h1 = TTL h" using init_config [OF h1] by simp
  with post_ok [OF p] show ?thesis by (auto simp: zero_req_def)
qed

lemma get_stored:
  assumes "db h = Some d" and "k \<noteq> ''''" and "d k = Some e" and "\<not> isExpired now e"
  shows "get h now k = Inr (Value e)"
  using assms by (simp add: get_def db_View_def txn_Get_def ValueCopy_def)

lemma get_absent:
  assumes "db h = Some d" and "d k = None \<or> (\<exists>e. d k = Some e \<and> isExpired now e)"
  shows "get h now k = Inl (if k = '''' then ErrEmptyKey else ErrKeyNotFound)"
  using assms by (auto simp: get_def db_View_def txn_Get_def)

lemma get_empty: "db h = Some d \<Longrightarrow> get h now '''' = Inl ErrEmptyKey"
  by (simp add: get_def db_View_def txn_Get_def)

subsection \<open>Expiry in whole seconds\<close>

lemma uint64_of_int: "0 \<le> k \<Longrightarrow> k < 2 ^ 64 \<Longrightarrow> uint (word_of_int k :: 64 word) = k"
  by (simp add: uint_word_of_int take_bit_eq_mod)

lemma isExpired_seconds:
  assumes "0 < s" and "s < 2 ^ 64" and "0 \<le> Unix now" and "Unix now < 2 ^ 64"
    and "ExpiresAt e = word_of_int s"
  shows "isExpired now e \<longleftrightarrow> s \<le> Unix now"
proof -
  have s: "uint (word_of_int s :: 64 word) = s" using assms(1,2) by (simp add: uint64_of_int)
  have n: "uint (word_of_int (Unix now) :: 64 word) = Unix now"
    using assms(3,4) by (simp add: uint64_of_int)
  have "(word_of_int s :: 64 word) \<noteq> 0"
  proof
    assume "(word_of_int s :: 64 word) = 0"
    then have "uint (word_of_int s :: 64 word) = 0" by simp
    with s assms(1) show False by simp
  qed
  then show ?thesis
    by (simp add: isExpired_def assms(5) word_le_def s n)
qed

lemma never_expires: "ExpiresAt e = 0 \<Longrightarrow> \<not> isExpired now e"
  by (simp add: isExpired_def)

lemma Get_open: "db h = Some d \<Longrightarrow> Get env h now k = (h, get h now k)"
  by (simp add: Get_def init_open)

subsection \<open>The sample, evaluated\<close>

lemma sample_id_nonempty [simp]: "sample_id \<noteq> ''''"
  by (simp add: sample_id_def)

lemma sample_sha:
  "Sprintf_x (replicate 32 48) =
     ''3030303030303030303030303030303030303030303030303030303030303030''"
  by code_simp

lemma sample_digest_ok: "digest_ok sample_env"
  by (simp add: digest_ok_def sample_env_def)

lemma sample_generateId:
  "generateId sample_env 0 ''http://example.com'' 8 = Inr sample_id"
  by (simp add: generateId_def sample_env_def Let_def sample_sha slice_to_def sample_id_def)

lemma sample_init:
  "init sample_env zero_Handler = (zero_Handler\<lparr>db := Some Map.empty\<rparr>, None)"
  by (simp add: init_def h_open_def zero_Handler_def sample_env_def)

lemma sample_parse:
  "url_Parse sample_env ''example.com'' = Inr (blank_URL\<lparr>Path := ''example.com''\<rparr>)"
  by (simp add: sample_env_def neturl_Parse_tbl_def)

lemma sample_parse_http:
  "url_Parse sample_env ''http://example.com'' =
     Inr (blank_URL\<lparr>URL.Scheme := ''http'', Host := ''example.com''\<rparr>)"
  by (simp add: sample_env_def neturl_Parse_tbl_def)

lemma sample_parse_upper:
  "url_Parse sample_env ''HTTP://example.com'' =
     Inr (blank_URL\<lparr>URL.Scheme := ''http'', Host := ''example.com''\<rparr>)"
  by (simp add: sample_env_def neturl_Parse_tbl_def)

lemma sample_String:
  "URL_String sample_env (blank_URL\<lparr>URL.Scheme := ''http'', Path := ''example.com''\<rparr>) =
     ''http://example.com''"
  by (simp add: sample_env_def neturl_String_tbl_def)

lemma sample_String_host:
  "URL_String sample_env (blank_URL\<lparr>URL.Scheme := ''http'', Host := ''example.com''\<rparr>) =
     ''http://example.com''"
  by (simp add: sample_env_def neturl_String_tbl_def blank_URL_def)

lemma sample_post:
  "post sample_env (zero_Handler\<lparr>db := Some Map.empty\<rparr>) 0 ''example.com'' [] =
     (sample_h1, Inr sample_id)"
  using sample_generateId sample_String
  by (simp add: post_def sample_parse blank_URL_def Let_def getLength_def zero_req_def
        zero_Handler_def DefaultLength_def db_Update_def txn_Set_def txn_SetEntry_def NewEntry_def
        sample_h1_def sample_db_def)
     (simp add: sample_env_def)

lemma sample_post_upper:
  "post sample_env (zero_Handler\<lparr>db := Some Map.empty\<rparr>) 0 ''HTTP://example.com'' [] =
     (sample_h1, Inr sample_id)"
  using sample_generateId sample_String_host
  by (simp add: post_def sample_parse_upper blank_URL_def Let_def getLength_def zero_req_def
        zero_Handler_def DefaultLength_def db_Update_def txn_Set_def txn_SetEntry_def NewEntry_def
        sample_h1_def sample_db_def)
     (simp add: sample_env_def)

lemma sample_Post:
  "Post sample_env zero_Handler 0 ''example.com'' opts = (sample_h1, Inr sample_id)"
  by (simp add: Post_def sample_init sample_post)

lemma sample_init_ttl:
  "init sample_env (WithDefaultTTL 2000000000 zero_Handler) =
     ((WithDefaultTTL 2000000000 zero_Handler)\<lparr>db := Some Map.empty\<rparr>, None)"
  by (simp add: init_def h_open_def WithDefaultTTL_def zero_Handler_def sample_env_def)

lemma sample_post_ttl2:
  "post sample_env ((WithDefaultTTL 2000000000 zero_Handler)\<lparr>db := Some Map.empty\<rparr>) 0
     ''example.com'' [] = (sample_h2, Inr sample_id)"
  using sample_generateId sample_String
  by (simp add: post_def sample_parse blank_URL_def Let_def getLength_def zero_req_def
        zero_Handler_def DefaultLength_def db_Update_def txn_Set_def txn_SetEntry_def NewEntry_def
        Entry_WithTTL_def WithDefaultTTL_def Unix_def sample_h2_def sample_db2_def
        sample_entry2_def sample_id_def)
     (simp add: sample_env_def)

lemma sample_Post_ttl:
  "Post sample_env (WithDefaultTTL 2000000000 zero_Handler) 0 ''example.com'' [] =
     (sample_h2, Inr sample_id)"
  by (simp add: Post_def sample_init_ttl sample_post_ttl2)

lemma sample_entry2_live: "\<not> isExpired 1999999999 sample_entry2"
  using isExpired_seconds [of 2 1999999999 sample_entry2]
  by (simp add: Unix_def sample_entry2_def)

lemma sample_entry2_expired: "isExpired 2000000000 sample_entry2"
  using isExpired_seconds [of 2 2000000000 sample_entry2]
  by (simp add: Unix_def sample_entry2_def)

lemma sample_Get:
  "Get sample_env sample_h1 now sample_id = (sample_h1, Inr ''http://example.com'')"
  by (simp add: Get_def init_def sample_h1_def get_def db_View_def txn_Get_def sample_db_def
        isExpired_def ValueCopy_def)

lemma sample_split: "snd (path_Split ''/r/30303030'') = ''30303030''"
  by code_simp

lemma sample_split_unknown: "snd (path_Split ''/r/unknown'') = ''unknown''"
  by code_simp

section \<open>The claims\<close>

subsection \<open>Per-call options\<close>

text \<open>
  C1 says that \<^verbatim>\<open>Post(u, length=n)\<close> returns an id of \<open>n\<close> characters for \<open>n\<close>
  in \<open>[1,64]\<close>, the per-call length overriding the defaults. The code does not do
  that: \<^verbatim>\<open>Post\<close> calls \<^verbatim>\<open>h.post(url)\<close> without its options, so whatever the
  options are, the id has as many characters as the instance default asks for (at
  most 64), or 8 when that default is not positive; its characters are lowercase
  hexadecimal digits. With the default handler, \<^verbatim>\<open>Post(u, WithLength(4))\<close>
  returns 8 characters.
\<close>

theorem C1_Post_drops_length:
  assumes "digest_ok env" and "Post env h now u opts = (h', Inr i)"
  shows "length i = (if 0 < Length h then min 64 (nat (Length h)) else 8) \<and>
         set i \<subseteq> set ldigits"
proof -
  from assms(2) obtain h1 where h1: "init env h = (h1, None)"
    and p: "post env h1 now u [] = (h', Inr i)"
    using Post_ok by blast
  from post_ok [OF p] obtain p0 where
    g: "generateId env now (URL_String env (norm_URL p0)) (getLength h1 zero_req) = Inr i"
    by auto
  have len: "Length h1 = Length h" using init_config [OF h1] by simp
  let ?sha = "Sprintf_x (Sum256 env (URL_String env (norm_URL p0) @ ''-'' @ Time_String env now))"
  have "0 \<le> getLength h1 zero_req" using getLength_pos [of h1 zero_req] by simp
  from generateId_nonneg [OF this] g
  have i: "i = take (nat (getLength h1 zero_req)) ?sha" by simp
  have "length ?sha = 64" using assms(1) by (rule length_sha)
  with i len have "length i = (if 0 < Length h then min 64 (nat (Length h)) else 8)"
    by (simp add: getLength_zero_req)
  moreover have "set i \<subseteq> set ldigits"
    using i set_Sprintf_x [of "Sum256 env (URL_String env (norm_URL p0) @ ''-'' @ Time_String env now)"]
      set_take_subset [of "nat (getLength h1 zero_req)" ?sha]
    by blast
  ultimately show ?thesis by simp
qed

theorem C1_Post_drops_length_witness:
  "digest_ok sample_env \<and>
   Post sample_env zero_Handler 0 ''example.com'' [WithLength 4] = (sample_h1, Inr sample_id) \<and>
   Length zero_Handler = 0 \<and> length sample_id = 8"
  using C1_Post_drops_length [OF sample_digest_ok sample_Post [of "[WithLength 4]"]]
    sample_digest_ok sample_Post [of "[WithLength 4]"]
  by (simp add: zero_Handler_def)

text \<open>
  C2 says that a nonzero per-call TTL \<open>d\<close> is the TTL of the store write. For the
  same reason as in C1 it is not: whatever the options are, the entry that
  \<^verbatim>\<open>Post\<close> writes expires after the instance default, and never when that default
  is zero. With the default handler, \<^verbatim>\<open>Post(u, WithTTL(50ms))\<close> writes an entry
  without expiry (\<open>ExpiresAt\<close> is \<open>0\<close>).
\<close>

theorem C2_Post_drops_ttl:
  assumes "Post env h now u opts = (h', Inr i)"
  shows "\<exists>d e. db h' = Some d \<and> d i = Some e \<and>
           ExpiresAt e = (if TTL h = 0 then 0 else word_of_int (Unix (now + TTL h)))"
proof -
  from assms obtain h1 where h1: "init env h = (h1, None)"
    and p: "post env h1 now u [] = (h', Inr i)"
    using Post_ok by blast
  have "TTL h1 = TTL h" using init_config [OF h1] by simp
  with post_ok [OF p] show ?thesis by (auto simp: zero_req_def)
qed

theorem C2_Post_drops_ttl_witness:
  "Post sample_env zero_Handler 0 ''example.com'' [WithTTL 50000000] =
     (sample_h1, Inr sample_id) \<and>
   TTL zero_Handler = 0 \<and>
   (\<exists>d e. db sample_h1 = Some d \<and> d sample_id = Some e \<and> ExpiresAt e = 0)"
  using C2_Post_drops_ttl [OF sample_Post [of "[WithTTL 50000000]"]]
    sample_Post [of "[WithTTL 50000000]"]
  by (simp add: zero_Handler_def)

subsection \<open>Reading back what was posted\<close>

text \<open>
  C3 says that \<^verbatim>\<open>Get(Post(u))\<close> is \<open>u\<close> itself when \<open>u\<close> has a scheme. What is
  stored is not the input text but the parsed URL rendered again, and the parser
  lower-cases the scheme: posted as \<^verbatim>\<open>HTTP://example.com\<close>, the URL reads back as
  \<^verbatim>\<open>http://example.com\<close>.
\<close>

theorem C3_counterexample:
  "url_Parse sample_env ''HTTP://example.com'' =
     Inr (blank_URL\<lparr>URL.Scheme := ''http'', Host := ''example.com''\<rparr>) \<and>
   URL.Scheme (blank_URL\<lparr>URL.Scheme := ''http'', Host := ''example.com''\<rparr>) \<noteq> '''' \<and>
   Post sample_env zero_Handler 0 ''HTTP://example.com'' [] = (sample_h1, Inr sample_id) \<and>
   Get sample_env sample_h1 0 sample_id = (sample_h1, Inr ''http://example.com'') \<and>
   snd (Get sample_env sample_h1 0 sample_id) \<noteq> Inr ''HTTP://example.com''"
  by (simp add: sample_parse_upper Post_def sample_init sample_post_upper sample_Get)

text \<open>
  C3 as amended: when \<^verbatim>\<open>Post\<close> accepts \<open>u\<close> and the entry it stored under the
  returned id has not expired when \<^verbatim>\<open>Get\<close> reads it, \<^verbatim>\<open>Get\<close> of that id gives
  the rendering, by \<^verbatim>\<open>(*URL).String\<close>, of the parsed \<open>u\<close> with an empty scheme
  replaced by \<open>http\<close>. Expiry is the store's: in whole seconds, so that under an
  instance TTL of less than a second the entry may have expired at once.
\<close>

theorem C3_Get_Post:
  assumes "Post env h now u opts = (h1, Inr i)"
    and "url_Parse env u = Inr p"
    and "\<And>d e. db h1 = Some d \<Longrightarrow> d i = Some e \<Longrightarrow> \<not> isExpired now' e"
  shows "Get env h1 now' i = (h1, Inr (URL_String env (norm_URL p)))"
proof -
  let ?e = "\<lparr>Key = i, Value = URL_String env (norm_URL p),
             ExpiresAt = (if TTL h = 0 then 0 else word_of_int (Unix (now + TTL h)))\<rparr>"
  from Post_stored [OF assms(1)] assms(2) obtain d where
    d: "db h1 = Some d" and i: "i \<noteq> ''''" and e: "d i = Some ?e"
    by auto
  from assms(3) [OF d e] have "\<not> isExpired now' ?e" .
  from get_stored [OF d i e this] show ?thesis by (simp add: Get_open [OF d])
qed

theorem C3_Get_Post_witness:
  "Post sample_env (WithDefaultTTL 2000000000 zero_Handler) 0 ''example.com'' [] =
     (sample_h2, Inr sample_id) \<and>
   url_Parse sample_env ''example.com'' = Inr (blank_URL\<lparr>Path := ''example.com''\<rparr>) \<and>
   db sample_h2 = Some sample_db2 \<and>
   sample_db2 sample_id = Some sample_entry2 \<and>
   \<not> isExpired 1999999999 sample_entry2 \<and>
   Get sample_env sample_h2 1999999999 sample_id = (sample_h2, Inr ''http://example.com'')"
proof -
  have d: "db sample_h2 = Some sample_db2" by (simp add: sample_h2_def)
  have e: "sample_db2 sample_id = Some sample_entry2" by (simp add: sample_db2_def)
  note n = sample_entry2_live
  have a: "\<And>d e. db sample_h2 = Some d \<Longrightarrow> d sample_id = Some e \<Longrightarrow>
             \<not> isExpired 1999999999 e"
    using n by (auto simp: sample_h2_def sample_db2_def)
  from C3_Get_Post [OF sample_Post_ttl sample_parse a] sample_Post_ttl sample_parse sample_String
    d e n
  show ?thesis
    by (simp add: norm_URL_def blank_URL_def)
qed

subsection \<open>The identifier\<close>

text \<open>
  C4: at time \<open>t\<close>, \<^verbatim>\<open>generateId(u, n)\<close> is the first \<open>n\<close> characters of the
  hexadecimal rendering of the SHA-256 digest of \<open>u\<close>, a dash and the rendering of
  \<open>t\<close>; that rendering has 64 characters, all lowercase hexadecimal digits, and
  is returned whole when \<open>n \<ge> 64\<close>. A requested length is not negative: what
  \<^verbatim>\<open>getLength\<close> resolves is positive.
\<close>

theorem C4_generateId:
  assumes "digest_ok env" and "0 \<le> n"
  shows "generateId env t u n =
           Inr (take (nat n) (Sprintf_x (Sum256 env (u @ ''-'' @ Time_String env t)))) \<and>
         length (Sprintf_x (Sum256 env (u @ ''-'' @ Time_String env t))) = 64 \<and>
         set (Sprintf_x (Sum256 env (u @ ''-'' @ Time_String env t))) \<subseteq> set ldigits \<and>
         (64 \<le> n \<longrightarrow>
            generateId env t u n = Inr (Sprintf_x (Sum256 env (u @ ''-'' @ Time_String env t))))"
  using assms generateId_nonneg [of n env t u] length_sha [of env "u @ ''-'' @ Time_String env t"]
    set_Sprintf_x [of "Sum256 env (u @ ''-'' @ Time_String env t)"]
  by simp

theorem C4_generateId_witness:
  "digest_ok sample_env \<and> (0::int) \<le> 8 \<and>
   generateId sample_env 0 ''http://example.com'' 8 = Inr ''30303030'' \<and>
   generateId sample_env 0 ''http://example.com'' 64 =
     Inr ''3030303030303030303030303030303030303030303030303030303030303030''"
proof -
  have g64: "generateId sample_env 0 ''http://example.com'' 64 =
     Inr ''3030303030303030303030303030303030303030303030303030303030303030''"
    by (simp add: generateId_def sample_env_def Let_def sample_sha)
  from C4_generateId [OF sample_digest_ok, of 8 0 "''http://example.com''"]
    sample_digest_ok sample_generateId g64
  show ?thesis by (simp add: sample_id_def)
qed

subsection \<open>The default scheme\<close>

text \<open>
  C5: when the input parses to a URL with an empty scheme, what \<^verbatim>\<open>Post\<close> stores
  under the returned id is that URL rendered with its scheme set to \<open>http\<close>. In
  particular, since \<^verbatim>\<open>net/url\<close> parses \<^verbatim>\<open>example.com\<close> as a URL that has this
  path and nothing else, and renders it with the scheme as
  \<^verbatim>\<open>http://example.com\<close>, the value stored for \<^verbatim>\<open>example.com\<close> is
  \<^verbatim>\<open>http://example.com\<close>.
\<close>

theorem C5_scheme_defaulted:
  assumes "Post env h now s opts = (h', Inr i)"
    and "url_Parse env s = Inr u"
    and "URL.Scheme u = ''''"
  shows "\<exists>d e. db h' = Some d \<and> d i = Some e \<and>
           Value e = URL_String env (u\<lparr>URL.Scheme := ''http''\<rparr>) \<and>
           (s = ''example.com'' \<and> u = blank_URL\<lparr>Path := ''example.com''\<rparr> \<and>
            URL_String env (blank_URL\<lparr>URL.Scheme := ''http'', Path := ''example.com''\<rparr>) =
              ''http://example.com'' \<longrightarrow>
            Value e = ''http://example.com'')"
proof -
  let ?e = "\<lparr>Key = i, Value = URL_String env (u\<lparr>URL.Scheme := ''http''\<rparr>),
               ExpiresAt = (if TTL h = 0 then 0 else word_of_int (Unix (now + TTL h)))\<rparr>"
  from Post_stored [OF assms(1)] assms(2,3) obtain d where
    d: "db h' = Some d" and e: "d i = Some ?e"
    by (auto simp: norm_URL_def)
  have v: "Value ?e = URL_String env (u\<lparr>URL.Scheme := ''http''\<rparr>)" by simp
  have imp: "s = ''example.com'' \<and> u = blank_URL\<lparr>Path := ''example.com''\<rparr> \<and>
            URL_String env (blank_URL\<lparr>URL.Scheme := ''http'', Path := ''example.com''\<rparr>) =
              ''http://example.com'' \<longrightarrow>
            URL_String env (u\<lparr>URL.Scheme := ''http''\<rparr>) = ''http://example.com''"
  proof
    assume a: "s = ''example.com'' \<and> u = blank_URL\<lparr>Path := ''example.com''\<rparr> \<and>
            URL_String env (blank_URL\<lparr>URL.Scheme := ''http'', Path := ''example.com''\<rparr>) =
              ''http://example.com''"
    have "(blank_URL\<lparr>Path := ''example.com''\<rparr>)\<lparr>URL.Scheme := ''http''\<rparr> =
          blank_URL\<lparr>URL.Scheme := ''http'', Path := ''example.com''\<rparr>"
      by (simp add: blank_URL_def)
    with a show "URL_String env (u\<lparr>URL.Scheme := ''http''\<rparr>) = ''http://example.com''"
      by metis
  qed
  show ?thesis
  proof (intro exI conjI)
    show "db h' = Some d" by (rule d)
    show "d i = Some ?e" by (rule e)
    show "Value ?e = URL_String env (u\<lparr>URL.Scheme := ''http''\<rparr>)" by simp
    show "s = ''example.com'' \<and> u = blank_URL\<lparr>Path := ''example.com''\<rparr> \<and>
            URL_String env (blank_URL\<lparr>URL.Scheme := ''http'', Path := ''example.com''\<rparr>) =
              ''http://example.com'' \<longrightarrow>
            Value ?e = ''http://example.com''"
      using imp by (simp only: v)
  qed
qed

theorem C5_scheme_defaulted_witness:
  "Post sample_env zero_Handler 0 ''example.com'' [] = (sample_h1, Inr sample_id) \<and>
   url_Parse sample_env ''example.com'' = Inr (blank_URL\<lparr>Path := ''example.com''\<rparr>) \<and>
   URL.Scheme (blank_URL\<lparr>Path := ''example.com''\<rparr>) = '''' \<and>
   (\<exists>d e. db sample_h1 = Some d \<and> d sample_id = Some e \<and> Value e = ''http://example.com'')"
proof -
  have e: "URL.Scheme (blank_URL\<lparr>Path := ''example.com''\<rparr>) = ''''"
    by (simp add: blank_URL_def)
  from C5_scheme_defaulted [OF sample_Post sample_parse e] sample_Post [of "[]"] sample_parse e
    sample_String
  show ?thesis by (simp add: blank_URL_def)
qed

subsection \<open>Unknown and expired ids\<close>

text \<open>
  C6 says that \<^verbatim>\<open>Get\<close> fails with the not-found error for every id that is not a
  key of the store. The empty id is not a key, and for it the store answers with
  another error, its refusal of an empty key, which \<^verbatim>\<open>get\<close> hands on as it is:
  \<^verbatim>\<open>Get("")\<close> fails with \<open>ErrEmptyKey\<close>.
\<close>

theorem C6_counterexample:
  "db sample_h1 = Some sample_db \<and> sample_db '''' = None \<and>
   Get sample_env sample_h1 3 '''' = (sample_h1, Inl ErrEmptyKey) \<and>
   snd (Get sample_env sample_h1 3 '''') \<noteq> Inl ErrKeyNotFound"
  by (simp add: Get_def init_def sample_h1_def get_def db_View_def txn_Get_def sample_db_def
        sample_id_def)

text \<open>
  C6 as amended: when the id is not a key of the store, or its entry has expired,
  \<^verbatim>\<open>Get\<close> fails and returns no URL; the error is the store's key-not-found error
  when the id is not empty, and its empty-key error when it is. The store is the
  one \<^verbatim>\<open>Get\<close> reads: the handler's, opened first when it was not.
\<close>

theorem C6_Get_absent:
  assumes "init env h = (h1, None)"
    and "db h1 = Some d"
    and "d k = None \<or> (\<exists>e. d k = Some e \<and> isExpired now e)"
  shows "Get env h now k = (h1, Inl (if k = '''' then ErrEmptyKey else ErrKeyNotFound))"
  using assms get_absent [OF assms(2,3)] by (simp add: Get_def)

theorem C6_Get_absent_witness:
  "init sample_env sample_h1 = (sample_h1, None) \<and> db sample_h1 = Some sample_db \<and>
   sample_db ''unknown'' = None \<and>
   Get sample_env sample_h1 3 ''unknown'' = (sample_h1, Inl ErrKeyNotFound) \<and>
   isExpired 2000000000 sample_entry2 \<and>
   Get sample_env sample_h2 2000000000 sample_id = (sample_h2, Inl ErrKeyNotFound)"
proof -
  have i: "init sample_env sample_h1 = (sample_h1, None)"
    by (simp add: init_def sample_h1_def)
  have d: "db sample_h1 = Some sample_db" by (simp add: sample_h1_def)
  have n: "sample_db ''unknown'' = None" by (simp add: sample_db_def sample_id_def)
  then have a: "sample_db ''unknown'' = None \<or>
      (\<exists>e. sample_db ''unknown'' = Some e \<and> isExpired 3 e)" by simp
  have i2: "init sample_env sample_h2 = (sample_h2, None)"
    by (simp add: init_def sample_h2_def)
  have d2: "db sample_h2 = Some sample_db2" by (simp add: sample_h2_def)
  note x = sample_entry2_expired
  then have a2: "sample_db2 sample_id = None \<or>
      (\<exists>e. sample_db2 sample_id = Some e \<and> isExpired 2000000000 e)"
    by (simp add: sample_db2_def)
  from C6_Get_absent [OF i d a] C6_Get_absent [OF i2 d2 a2] i d n x
  show ?thesis by (simp add: sample_id_def)
qed

subsection \<open>The redirect handler\<close>

lemma ServeHTTP_open:
  assumes "db h = Some d"
  shows "ServeHTTP env h now w r =
     (case get h now (snd (path_Split (URL_Path r))) of
        Inl e \<Rightarrow> if is_panic e then (h, Inl e)
                 else (h, Inr (WriteHeader w StatusInternalServerError))
      | Inr u \<Rightarrow>
          (case redirect env w r u of
             (w2, Some e) \<Rightarrow> (h, Inr (WriteHeader w2 StatusInternalServerError))
           | (w2, None) \<Rightarrow> (h, Inr w2)))"
  by (simp add: ServeHTTP_def init_open [OF assms] Get_open [OF assms] Let_def split: sum.splits)

text \<open>
  C7: on a fresh response writer and an open store, a request whose last path
  segment is a key stored (not empty, as every key of the store is, and not
  expired) with the value
  \<^verbatim>\<open>http://example.com\<close> is answered with status 301 and the \<^verbatim>\<open>Location\<close>
  header \<^verbatim>\<open>http://example.com\<close>; a request whose last path segment is not a
  stored key (or is an expired one) is answered with status 500. The first half
  rests on what the libraries do with an absolute URL: \<^verbatim>\<open>net/url\<close> renders the
  parse of \<^verbatim>\<open>http://example.com\<close> back as it was, and \<^verbatim>\<open>http.Redirect\<close> sends it
  as the location unchanged.
\<close>

theorem C7_ServeHTTP:
  assumes "db h = Some d" and "wrote w = None" and "snd (path_Split (URL_Path r)) = k"
  shows "(k \<noteq> '''' \<and> d k = Some e \<and> \<not> isExpired now e \<and>
          Value e = ''http://example.com'' \<and>
          url_Parse env ''http://example.com'' = Inr u \<and>
          URL_String env u = ''http://example.com'' \<and>
          Redirect_Location env (URL_Path r) ''http://example.com'' = ''http://example.com'' \<longrightarrow>
          ServeHTTP env h now w r =
            (h, Inr (w\<lparr>Header := (Header w)(''Location'' \<mapsto> ''http://example.com''),
                       wrote := Some (301, (Header w)(''Location'' \<mapsto> ''http://example.com''))\<rparr>))) \<and>
         (d k = None \<or> (\<exists>x. d k = Some x \<and> isExpired now x) \<longrightarrow>
          ServeHTTP env h now w r = (h, Inr (w\<lparr>wrote := Some (500, Header w)\<rparr>)))"
proof (intro conjI impI)
  assume a: "k \<noteq> '''' \<and> d k = Some e \<and> \<not> isExpired now e \<and>
          Value e = ''http://example.com'' \<and>
          url_Parse env ''http://example.com'' = Inr u \<and>
          URL_String env u = ''http://example.com'' \<and>
          Redirect_Location env (URL_Path r) ''http://example.com'' = ''http://example.com''"
  then have g: "get h now k = Inr ''http://example.com''"
    using get_stored [OF assms(1), of k e now] by simp
  show "ServeHTTP env h now w r =
            (h, Inr (w\<lparr>Header := (Header w)(''Location'' \<mapsto> ''http://example.com''),
                       wrote := Some (301, (Header w)(''Location'' \<mapsto> ''http://example.com''))\<rparr>))"
    using a assms(2)
    by (simp add: ServeHTTP_open [OF assms(1)] assms(3) g redirect_def http_Redirect_def
          WriteHeader_def StatusMovedPermanently_def)
next
  assume "d k = None \<or> (\<exists>x. d k = Some x \<and> isExpired now x)"
  from get_absent [OF assms(1) this]
  show "ServeHTTP env h now w r = (h, Inr (w\<lparr>wrote := Some (500, Header w)\<rparr>))"
    using assms(2)
    by (simp add: ServeHTTP_open [OF assms(1)] assms(3) is_panic_def WriteHeader_def
          StatusInternalServerError_def)
qed

theorem C7_ServeHTTP_witness:
  "ServeHTTP sample_env sample_h1 0 new_ResponseWriter (sample_request ''/r/30303030'') =
     (sample_h1, Inr \<lparr>Header = [''Location'' \<mapsto> ''http://example.com''],
                      wrote = Some (301, [''Location'' \<mapsto> ''http://example.com''])\<rparr>) \<and>
   ServeHTTP sample_env sample_h1 0 new_ResponseWriter (sample_request ''/r/unknown'') =
     (sample_h1, Inr \<lparr>Header = Map.empty, wrote = Some (500, Map.empty)\<rparr>)"
proof -
  let ?e = "\<lparr>Key = sample_id, Value = ''http://example.com'', ExpiresAt = 0\<rparr>"
  let ?u = "blank_URL\<lparr>URL.Scheme := ''http'', Host := ''example.com''\<rparr>"
  have d: "db sample_h1 = Some sample_db" by (simp add: sample_h1_def)
  have w: "wrote new_ResponseWriter = None" by (simp add: new_ResponseWriter_def)
  have p1: "snd (path_Split (URL_Path (sample_request ''/r/30303030''))) = sample_id"
    by (simp add: sample_request_def sample_split sample_id_def)
  have p2: "snd (path_Split (URL_Path (sample_request ''/r/unknown''))) = ''unknown''"
    by (simp add: sample_request_def sample_split_unknown)
  have l: "Redirect_Location sample_env p x = x" for p x by (simp add: sample_env_def)
  have s: "sample_db sample_id = Some ?e"
    by (simp add: sample_db_def)
  have n: "sample_db ''unknown'' = None" by (simp add: sample_db_def sample_id_def)
  from C7_ServeHTTP [OF d w p1, of ?e 0 sample_env ?u]
    C7_ServeHTTP [OF d w p2, of ?e 0 sample_env ?u]
  show ?thesis
    by (simp add: s n l sample_parse_http sample_String_host isExpired_def new_ResponseWriter_def)
qed

subsection \<open>No panic on indexing\<close>

lemma post_no_slice_panic: "snd (post env h now s opts) \<noteq> Inl SliceBoundsPanic"
proof -
  have "0 \<le> getLength h (foldl (\<lambda>r opt. opt r) zero_req opts)"
    using getLength_pos [of h "foldl (\<lambda>r opt. opt r) zero_req opts"] by simp
  note g = generateId_nonneg [OF this]
  show ?thesis
    by (simp add: post_def Let_def g db_Update_def txn_Set_def txn_SetEntry_def
         split: sum.splits option.splits prod.splits)
qed

lemma post_open_no_panic:
  assumes "db h = Some d"
  shows "snd (post env h now s opts) \<noteq> Inl NilDerefPanic"
proof -
  have "0 \<le> getLength h (foldl (\<lambda>r opt. opt r) zero_req opts)"
    using getLength_pos [of h "foldl (\<lambda>r opt. opt r) zero_req opts"] by simp
  note g = generateId_nonneg [OF this]
  show ?thesis using assms
    by (simp add: post_def Let_def g db_Update_def txn_Set_def txn_SetEntry_def
         split: sum.splits option.splits prod.splits)
qed

lemma Post_no_panic:
  "snd (Post env h now s opts) \<noteq> Inl SliceBoundsPanic \<and>
   snd (Post env h now s opts) \<noteq> Inl NilDerefPanic"
proof (cases "init env h")
  case (Pair h1 err)
  show ?thesis
  proof (cases err)
    case None
    with Pair obtain d where "db h1 = Some d" using init_ok_db by blast
    from post_open_no_panic [OF this] post_no_slice_panic Pair None
    show ?thesis by (simp add: Post_def)
  next
    case (Some e)
    with Pair init_error show ?thesis by (fastforce simp: Post_def)
  qed
qed

text \<open>
  C8: whatever the instance default and the per-call length are (zero and negative
  ones too), the length \<^verbatim>\<open>getLength\<close> resolves is positive; with it
  \<^verbatim>\<open>generateId\<close> returns a prefix of the digest's rendering and its slice is in
  bounds; neither \<^verbatim>\<open>post\<close> nor \<^verbatim>\<open>Post\<close> panics on the slice, and \<^verbatim>\<open>Post\<close>
  does not panic at all.
\<close>

theorem C8_no_index_panic:
  "0 < getLength h r \<and>
   generateId env now u (getLength h r) =
     Inr (take (nat (getLength h r)) (Sprintf_x (Sum256 env (u @ ''-'' @ Time_String env now)))) \<and>
   snd (post env h now s opts) \<noteq> Inl SliceBoundsPanic \<and>
   snd (Post env h now s opts) \<noteq> Inl SliceBoundsPanic \<and>
   snd (Post env h now s opts) \<noteq> Inl NilDerefPanic"
proof -
  have "0 \<le> getLength h r" using getLength_pos [of h r] by simp
  from generateId_nonneg [OF this] getLength_pos [of h r] post_no_slice_panic Post_no_panic
  show ?thesis by simp
qed

theorem C8_no_index_panic_witness:
  "getLength (WithDefaultLength (- 3) zero_Handler) (WithLength (- 5) zero_req) = 8 \<and>
   getLength (WithDefaultLength 0 zero_Handler) (WithLength 0 zero_req) = 8 \<and>
   snd (Post sample_env (WithDefaultLength (- 3) zero_Handler) 0 ''example.com''
          [WithLength (- 5)]) \<noteq> Inl SliceBoundsPanic"
  using C8_no_index_panic [of "WithDefaultLength (- 3) zero_Handler" "WithLength (- 5) zero_req"
      sample_env 0 "''x''" "''example.com''" "[WithLength (- 5)]"]
  by (simp add: getLength_def WithDefaultLength_def WithLength_def zero_Handler_def zero_req_def
        DefaultLength_def)

subsection \<open>The Scheme field\<close>

lemma init_Scheme:
  "init env (h\<lparr>Handler.Scheme := x\<rparr>) =
     ((fst (init env h))\<lparr>Handler.Scheme := x\<rparr>, snd (init env h))"
  by (simp add: init_def h_open_def getPath_def split: sum.splits)

lemma post_Scheme:
  "post env (h\<lparr>Handler.Scheme := x\<rparr>) now s opts =
     ((fst (post env h now s opts))\<lparr>Handler.Scheme := x\<rparr>, snd (post env h now s opts))"
  by (simp add: post_def Let_def getLength_def split: sum.splits option.splits prod.splits)

lemma Post_Scheme:
  "Post env (h\<lparr>Handler.Scheme := x\<rparr>) now s opts =
     ((fst (Post env h now s opts))\<lparr>Handler.Scheme := x\<rparr>, snd (Post env h now s opts))"
  by (simp add: Post_def init_Scheme post_Scheme split: prod.splits option.splits)

lemma get_Scheme: "get (h\<lparr>Handler.Scheme := x\<rparr>) now k = get h now k"
  by (simp add: get_def)

lemma Get_Scheme:
  "Get env (h\<lparr>Handler.Scheme := x\<rparr>) now k =
     ((fst (Get env h now k))\<lparr>Handler.Scheme := x\<rparr>, snd (Get env h now k))"
  by (simp add: Get_def init_Scheme get_Scheme split: prod.splits option.splits)

lemma step_Scheme:
  "step env (h\<lparr>Handler.Scheme := x\<rparr>) now c =
     ((fst (step env h now c))\<lparr>Handler.Scheme := x\<rparr>, snd (step env h now c))"
  by (cases c) (simp_all add: Post_Scheme Get_Scheme)

lemma run_Scheme:
  "run env (h\<lparr>Handler.Scheme := x\<rparr>) cs =
     ((fst (run env h cs))\<lparr>Handler.Scheme := x\<rparr>, snd (run env h cs))"
proof (induction cs arbitrary: h)
  case Nil
  show ?case by simp
next
  case (Cons a cs)
  obtain now c where a: "a = (now, c)" by (cases a)
  obtain h1 res where s: "step env h now c = (h1, res)" by (cases "step env h now c")
  have s': "step env (h\<lparr>Handler.Scheme := x\<rparr>) now c = (h1\<lparr>Handler.Scheme := x\<rparr>, res)"
    using step_Scheme [where env = env and h = h and x = x and now = now and c = c] s by simp
  show ?case using Cons.IH [of h1]
    by (simp add: a s s' split: prod.splits)
qed

text \<open>
  C9: the \<open>Scheme\<close> field of the handler is never read. For every sequence of
  \<^verbatim>\<open>Post\<close> and \<^verbatim>\<open>Get\<close> calls, a handler and the same handler with another
  \<open>Scheme\<close> give the same results and the same store; the final handlers differ
  in that field only.
\<close>

theorem C9_Scheme_unused:
  "snd (run env (h\<lparr>Handler.Scheme := x\<rparr>) cs) = snd (run env h cs) \<and>
   db (fst (run env (h\<lparr>Handler.Scheme := x\<rparr>) cs)) = db (fst (run env h cs)) \<and>
   fst (run env (h\<lparr>Handler.Scheme := x\<rparr>) cs) = (fst (run env h cs))\<lparr>Handler.Scheme := x\<rparr>"
  by (simp add: run_Scheme)

theorem C9_Scheme_unused_witness:
  "snd (run sample_env (zero_Handler\<lparr>Handler.Scheme := ''https''\<rparr>)
          [(0, CallPost ''example.com'' []), (1, CallGet sample_id)]) =
     [Inr sample_id, Inr ''http://example.com''] \<and>
   snd (run sample_env zero_Handler
          [(0, CallPost ''example.com'' []), (1, CallGet sample_id)]) =
     [Inr sample_id, Inr ''http://example.com'']"
  using C9_Scheme_unused [where env = sample_env and h = zero_Handler and x = "''https''"
      and cs = "[(0, CallPost ''example.com'' []), (1, CallGet sample_id)]"]
  by (simp add: sample_Post sample_Get)

subsection \<open>A parse error writes nothing\<close>

text \<open>
  C10: when \<^verbatim>\<open>Post\<close> fails with a parse error, the error is the parser's and the
  handler is as \<^verbatim>\<open>init\<close> alone leaves it: a store that was open is unchanged, and
  one that was not has been opened and nothing written to it.
\<close>

theorem C10_parse_error_keeps_store:
  assumes "Post env h now s opts = (h', Inl (ParseError m))"
  shows "url_Parse env s = Inl m \<and> h' = fst (init env h) \<and> (db h \<noteq> None \<longrightarrow> h' = h)"
proof -
  obtain h1 err where i: "init env h = (h1, err)" by (cases "init env h")
  show ?thesis
  proof (cases err)
    case (Some e)
    with i init_error [of env h h1 e] assms show ?thesis by (auto simp: Post_def)
  next
    case None
    have "0 \<le> getLength h1 zero_req" using getLength_pos [of h1 zero_req] by simp
    note g = generateId_nonneg [OF this]
    from None i assms have p: "post env h1 now s [] = (h', Inl (ParseError m))"
      by (simp add: Post_def)
    then have "url_Parse env s = Inl m \<and> h' = h1"
      by (auto simp: post_def Let_def g db_Update_def txn_Set_def txn_SetEntry_def
            split: sum.splits option.splits prod.splits if_splits)
    with i show ?thesis by (auto simp: init_def)
  qed
qed

theorem C10_parse_error_keeps_store_witness:
  "Post sample_env sample_h1 5 '':foo'' [] =
     (sample_h1, Inl (ParseError ''missing protocol scheme'')) \<and>
   db sample_h1 \<noteq> None"
proof -
  have p: "Post sample_env sample_h1 5 '':foo'' [] =
      (sample_h1, Inl (ParseError ''missing protocol scheme''))"
    by (simp add: Post_def init_def sample_h1_def post_def sample_env_def neturl_Parse_tbl_def)
  from C10_parse_error_keeps_store [OF p] p show ?thesis by (simp add: sample_h1_def)
qed

section \<open>Further properties\<close>

subsection \<open>The options reach post, not Post\<close>

text \<open>
  \<^verbatim>\<open>Post\<close> gives the same result whatever its options are.
\<close>

theorem Post_ignores_opts: "Post env h now u opts = Post env h now u []"
  by (simp add: Post_def)

text \<open>
  The unexported \<^verbatim>\<open>post\<close> honours a per-call length \<open>n \<ge> 1\<close>: the id has
  \<open>n\<close> characters, 64 when \<open>n\<close> is larger, all lowercase hexadecimal digits.
\<close>

theorem post_WithLength:
  assumes "digest_ok env" and "1 \<le> n" and "post env h now u [WithLength n] = (h', Inr i)"
  shows "length i = nat (min n 64) \<and> set i \<subseteq> set ldigits"
proof -
  from post_ok [OF assms(3)] obtain p0 where
    g: "generateId env now (URL_String env (norm_URL p0)) n = Inr i"
    using assms(2) by (auto simp: WithLength_def zero_req_def getLength_def)
  let ?sha = "Sprintf_x (Sum256 env (URL_String env (norm_URL p0) @ ''-'' @ Time_String env now))"
  have "0 \<le> n" using assms(2) by simp
  from generateId_nonneg [OF this] g have i: "i = take (nat n) ?sha" by simp
  have "length ?sha = 64" using assms(1) by (rule length_sha)
  with i have "length i = nat (min n 64)" by auto
  moreover have "set i \<subseteq> set ldigits"
    using i set_Sprintf_x [of "Sum256 env (URL_String env (norm_URL p0) @ ''-'' @ Time_String env now)"]
      set_take_subset [of "nat n" ?sha]
    by blast
  ultimately show ?thesis by simp
qed

lemma sample_generateId_4:
  "generateId sample_env 0 ''http://example.com'' 4 = Inr ''3030''"
  by (simp add: generateId_def sample_env_def Let_def sample_sha slice_to_def)

lemma sample_post_len4:
  "snd (post sample_env (zero_Handler\<lparr>db := Some Map.empty\<rparr>) 0 ''example.com'' [WithLength 4]) =
     Inr ''3030''"
  using sample_generateId_4 sample_String
  by (simp add: post_def sample_parse blank_URL_def Let_def getLength_def zero_req_def
        zero_Handler_def DefaultLength_def db_Update_def txn_Set_def txn_SetEntry_def NewEntry_def
        WithLength_def)
     (simp add: sample_env_def)

theorem post_WithLength_witness:
  "digest_ok sample_env \<and> (1::int) \<le> 4 \<and>
   snd (post sample_env (zero_Handler\<lparr>db := Some Map.empty\<rparr>) 0 ''example.com'' [WithLength 4]) =
     Inr ''3030'' \<and>
   length ''3030'' = nat (min 4 64)"
proof -
  have p: "post sample_env (zero_Handler\<lparr>db := Some Map.empty\<rparr>) 0 ''example.com'' [WithLength 4] =
      (fst (post sample_env (zero_Handler\<lparr>db := Some Map.empty\<rparr>) 0 ''example.com'' [WithLength 4]),
       Inr ''3030'')"
    using sample_post_len4 by (simp add: prod_eq_iff)
  have n: "(1::int) \<le> 4" by simp
  from post_WithLength [OF sample_digest_ok n p] sample_digest_ok sample_post_len4
  show ?thesis by simp
qed

text \<open>
  The unexported \<^verbatim>\<open>post\<close> honours a nonzero per-call TTL \<open>t\<close>: the entry it
  writes expires at the second in which \<open>t\<close> after the call falls.
\<close>

theorem post_WithTTL:
  assumes "t \<noteq> 0" and "post env h now u [WithTTL t] = (h', Inr i)"
  shows "\<exists>d e. db h' = Some d \<and> d i = Some e \<and> ExpiresAt e = word_of_int (Unix (now + t))"
  using post_ok [OF assms(2)] assms(1) by (auto simp: WithTTL_def zero_req_def)

lemma sample_post_ttl:
  "post sample_env (zero_Handler\<lparr>db := Some Map.empty\<rparr>) 0 ''example.com'' [WithTTL 2000000000] =
     (zero_Handler\<lparr>db := Some sample_db2\<rparr>, Inr sample_id)"
  using sample_generateId sample_String
  by (simp add: post_def sample_parse blank_URL_def Let_def getLength_def zero_req_def
        zero_Handler_def DefaultLength_def db_Update_def txn_Set_def txn_SetEntry_def NewEntry_def
        Entry_WithTTL_def WithTTL_def Unix_def sample_db2_def sample_entry2_def sample_id_def)
     (simp add: sample_env_def)

theorem post_WithTTL_witness:
  "(2000000000::int) \<noteq> 0 \<and>
   post sample_env (zero_Handler\<lparr>db := Some Map.empty\<rparr>) 0 ''example.com'' [WithTTL 2000000000] =
     (zero_Handler\<lparr>db := Some sample_db2\<rparr>, Inr sample_id) \<and>
   sample_db2 sample_id = Some sample_entry2 \<and> ExpiresAt sample_entry2 = 2"
proof -
  have n: "(2000000000::int) \<noteq> 0" by simp
  from post_WithTTL [OF n sample_post_ttl] sample_post_ttl show ?thesis
    by (simp add: sample_db2_def sample_entry2_def)
qed

subsection \<open>Expiry under the instance TTL\<close>

text \<open>
  An entry posted under a nonzero instance TTL is not found from the second on in
  which the TTL ends (for seconds after the epoch that fit 64 bits). When the TTL
  ends within the second of the call, that is at once.
\<close>

theorem Post_then_expired:
  assumes "Post env h now u opts = (h1, Inr i)"
    and "TTL h \<noteq> 0"
    and "0 < Unix (now + TTL h)"
    and "Unix (now + TTL h) \<le> Unix now'"
    and "Unix now' < 2 ^ 64"
  shows "Get env h1 now' i = (h1, Inl ErrKeyNotFound)"
proof -
  from Post_stored [OF assms(1)] assms(2) obtain d e where
    d: "db h1 = Some d" and i: "i \<noteq> ''''" and e: "d i = Some e"
    and x: "ExpiresAt e = word_of_int (Unix (now + TTL h))"
    by auto
  have "isExpired now' e"
    using isExpired_seconds [of "Unix (now + TTL h)" now' e] assms(3,4,5) x by simp
  with e have "d i = None \<or> (\<exists>e. d i = Some e \<and> isExpired now' e)" by blast
  from get_absent [OF d this] i show ?thesis by (simp add: Get_open [OF d])
qed

theorem Post_then_expired_witness:
  "Post sample_env (WithDefaultTTL 2000000000 zero_Handler) 0 ''example.com'' [] =
     (sample_h2, Inr sample_id) \<and>
   TTL (WithDefaultTTL 2000000000 zero_Handler) = 2000000000 \<and>
   Unix (0 + 2000000000) = 2 \<and> Unix 2000000000 = 2 \<and>
   Get sample_env sample_h2 2000000000 sample_id = (sample_h2, Inl ErrKeyNotFound)"
proof -
  have t: "TTL (WithDefaultTTL 2000000000 zero_Handler) \<noteq> 0"
    by (simp add: WithDefaultTTL_def zero_Handler_def)
  have a: "0 < Unix (0 + TTL (WithDefaultTTL 2000000000 zero_Handler))"
    by (simp add: WithDefaultTTL_def zero_Handler_def Unix_def)
  have b: "Unix (0 + TTL (WithDefaultTTL 2000000000 zero_Handler)) \<le> Unix 2000000000"
    by (simp add: WithDefaultTTL_def zero_Handler_def Unix_def)
  have c: "Unix 2000000000 < 2 ^ 64" by (simp add: Unix_def)
  from Post_then_expired [OF sample_Post_ttl t a b c] sample_Post_ttl
  show ?thesis by (simp add: WithDefaultTTL_def zero_Handler_def Unix_def)
qed

text \<open>
  With a TTL that ends within the second of the call (50 milliseconds, most of
  the time), the entry is not found already at the time of the call.
\<close>

lemma Post_expired_at_once:
  assumes "Post env h now u opts = (h1, Inr i)"
    and "TTL h \<noteq> 0"
    and "Unix (now + TTL h) = Unix now"
    and "0 < Unix now" and "Unix now < 2 ^ 64"
  shows "Get env h1 now i = (h1, Inl ErrKeyNotFound)"
  using Post_then_expired [OF assms(1,2), of now] assms(3,4,5) by simp

subsection \<open>No entry under the empty key\<close>

text \<open>
  The store refuses to write under the empty key, so \<^verbatim>\<open>post\<close> keeps a store
  without such an entry as it is in that respect.
\<close>

lemma post_no_empty_key:
  assumes "db h = Some d" and "d '''' = None" and "post env h now s opts = (h', res)"
  shows "\<exists>d'. db h' = Some d' \<and> d' '''' = None"
  using assms
  by (auto simp: post_def Let_def db_Update_def txn_Set_def txn_SetEntry_def NewEntry_def
        Entry_WithTTL_def
      split: sum.splits option.splits if_splits prod.splits)

end
